theory Spec2Isabelle
  imports Complex_Main "HOL-Library.Sublist"
begin

section \<open>Data model\<close>

text \<open>
  The repository classifies image contours by shape (\<^verbatim>\<open>detect_shapes.py\<close>,
  \<^verbatim>\<open>utils/proga1.py\<close>) and tags them with a colour sampled at the centroid
  (\<^verbatim>\<open>detected_figures.py\<close>). Python integers are modelled as \<open>int\<close> and Python
  floats as the reals they denote; the circularity, whose threshold the caller chooses,
  is computed in double precision, every operation rounded as IEEE 754 rounds it; the
  other quotients (aspect ratio, fill ratio, centroid) are taken exactly.
  The OpenCV and NumPy primitives the code calls are not part of
  the repository: they are taken as parameters, collected in the record \<open>cv2\<close>, over
  an arbitrary type \<open>'a\<close> of NumPy arrays and a type \<open>'r\<close> of rotated rectangles.
\<close>

text \<open>The exceptions the modelled functions raise.\<close>

datatype error = TypeError | ValueError | ZeroDivisionError | FileNotFoundError

text \<open>
  The verdict strings of \<^verbatim>\<open>ShapeDetector.detect\<close>: \<open>Square\<close> is the string the
  source returns for a square, \<open>Rectangle\<close> the one for a rectangle and \<open>Unknown\<close> the
  initial value of \<^verbatim>\<open>shape\<close> (the source's literals are Russian words).
\<close>

datatype shape = Square | Rectangle | Unknown

text \<open>The three fields of \<^verbatim>\<open>cv2.moments\<close> the code reads.\<close>

record moments =
  m00 :: real
  m10 :: real
  m01 :: real

record ('a, 'r) cv2 =
  contourArea :: "'a \<Rightarrow> real"
  arcLength :: "'a \<Rightarrow> bool \<Rightarrow> real"
  approxPolyDP :: "'a \<Rightarrow> real \<Rightarrow> bool \<Rightarrow> 'a"
  len :: "'a \<Rightarrow> nat"
  boundingRect :: "'a \<Rightarrow> int \<times> int \<times> int \<times> int"
  minAreaRect :: "'a \<Rightarrow> 'r"
  boxPoints :: "'r \<Rightarrow> 'a"
  points :: "'a \<Rightarrow> (real \<times> real) list"
  int_array :: "(int \<times> int) list \<Rightarrow> 'a"
  cv_moments :: "'a \<Rightarrow> moments"

text \<open>
  Two of the fields are NumPy's: \<open>points\<close> reads the rows of a two-column array and
  \<open>int_array\<close> is the integer array with the given rows.
\<close>

text \<open>Python's \<^verbatim>\<open>int(x)\<close> on a float: truncation toward zero.\<close>

definition py_int :: "real \<Rightarrow> int" where
  "py_int r = (if r \<ge> 0 then \<lfloor>r\<rfloor> else \<lceil>r\<rceil>)"

text \<open>
  \<^verbatim>\<open>np.intp(box)\<close> converts every entry of the float array to an integer the way a C
  cast does, by truncation toward zero.
\<close>

definition np_intp :: "('a, 'r) cv2 \<Rightarrow> 'a \<Rightarrow> 'a" where
  "np_intp cv box = int_array cv (map (\<lambda>(x, y). (py_int x, py_int y)) (points cv box))"

subsection \<open>Double precision\<close>

text \<open>
  \<open>rne\<close> rounds a real to the nearest integer, a tie to the even one. \<open>fl\<close> rounds a
  real to the nearest double, a tie to the even significand: a double in the binade
  \<open>2 powi e\<close> is an integer multiple of \<open>2 powi (e - 52)\<close>, and below \<open>2 powi (- 1022)\<close>
  the spacing stays that of the smallest binade. Results of magnitude \<open>2 ^ 1024\<close> and
  more, infinite in IEEE arithmetic, are beyond what areas and perimeters of contours
  with 32-bit coordinates produce and are not modelled.
\<close>

definition rne :: "real \<Rightarrow> int" where
  "rne x = (let n = \<lfloor>x\<rfloor>
            in if x - of_int n < 1 / 2 then n
               else if 1 / 2 < x - of_int n then n + 1
               else if even n then n else n + 1)"

definition fl :: "real \<Rightarrow> real" where
  "fl x = (if x = 0 then 0
           else (let e = max \<lfloor>log 2 \<bar>x\<bar>\<rfloor> (- 1022);
                     u = 2 powi (e - 52)
                 in of_int (rne (x / u)) * u))"

text \<open>\<^verbatim>\<open>np.pi\<close>, the double nearest to \<open>pi\<close>: 3.141592653589793.\<close>

definition np_pi :: real where
  "np_pi = 884279719003555 / 2 ^ 48"

text \<open>
  An element of the \<^verbatim>\<open>contours\<close> argument is a NumPy array or some other object, and
  the argument itself is a list, a tuple or some other object.
\<close>

datatype 'a pyobj = NdArray 'a | NotArray

datatype 'a pyarg = PyList "'a pyobj list" | PyTuple "'a pyobj list" | PyOther

section \<open>The shape classifier (\<^verbatim>\<open>utils/proga1.py\<close>)\<close>

text \<open>
  \<^verbatim>\<open>w / float(h)\<close> raises \<^verbatim>\<open>ZeroDivisionError\<close> when \<^verbatim>\<open>h\<close> is zero; OpenCV never
  returns such a box for four points, but the primitive is a parameter here, so the
  branch is kept.
\<close>

definition detect :: "('a, 'r) cv2 \<Rightarrow> 'a \<Rightarrow> error + shape" where
  "detect cv c =
     (let peri = arcLength cv c True;
          approx = approxPolyDP cv c (0.04 * peri) True
      in if len cv approx = 4 then
           (case boundingRect cv approx of (x, y, w, h) \<Rightarrow>
              if h = 0 then Inl ZeroDivisionError
              else let ar = real_of_int w / real_of_int h
                   in Inr (if ar \<ge> 0.95 \<and> ar \<le> 1.05 then Square else Rectangle))
         else Inr Unknown)"

section \<open>The contour partitioner (\<^verbatim>\<open>detect_shapes.py\<close>)\<close>

text \<open>
  Line 50: \<^verbatim>\<open>(4 * np.pi * area) / (perimeter ** 2)\<close>, on doubles: two products, a
  square and a quotient, each rounded. The square is computed by the C library's
  \<^verbatim>\<open>pow\<close>, taken here to round to the nearest double; it does wherever the square is
  itself a double, as for a perimeter of 400.
\<close>

definition circularity :: "real \<Rightarrow> real \<Rightarrow> real" where
  "circularity area perimeter = fl (fl (fl (4 * np_pi) * area) / fl (perimeter ^ 2))"

text \<open>Lines 56 to 59: the area of the integer corner box of the minimum-area rectangle.\<close>

definition box_area :: "('a, 'r) cv2 \<Rightarrow> 'a \<Rightarrow> real" where
  "box_area cv cnt =
     (let rect = minAreaRect cv cnt;
          box = boxPoints cv rect;
          box = np_intp cv box
      in contourArea cv box)"

type_synonym 'a buckets = "'a list \<times> 'a list \<times> 'a list"

text \<open>The \<^verbatim>\<open>for cnt in contours\<close> loop, with the three lists as the state.\<close>

fun classify_loop ::
  "('a, 'r) cv2 \<Rightarrow> real \<Rightarrow> 'a pyobj list \<Rightarrow> 'a buckets \<Rightarrow> error + 'a buckets" where
  "classify_loop cv thr [] st = Inr st"
| "classify_loop cv thr (NotArray # rest) st = classify_loop cv thr rest st"
| "classify_loop cv thr (NdArray cnt # rest) (circles, rects, others) =
     (let area = contourArea cv cnt;
          perimeter = arcLength cv cnt True
      in if perimeter \<le> 0 \<or> area \<le> 0 then
           classify_loop cv thr rest (circles, rects, others @ [cnt])
         else if circularity area perimeter > thr then
           classify_loop cv thr rest (circles @ [cnt], rects, others)
         else
           (case detect cv cnt of
              Inl e \<Rightarrow> Inl e
            | Inr shape \<Rightarrow>
                if shape = Rectangle \<or> shape = Square then
                  (if box_area cv cnt > 0 \<and> area / box_area cv cnt > 0.95 then
                     classify_loop cv thr rest (circles, rects @ [cnt], others)
                   else classify_loop cv thr rest (circles, rects, others @ [cnt]))
                else classify_loop cv thr rest (circles, rects, others @ [cnt])))"

text \<open>
  \<^verbatim>\<open>classify_contours(contours, circularity_threshold=0.8)\<close>: the threshold is
  \<open>None\<close> when the caller leaves the default, the double that \<^verbatim>\<open>0.8\<close> denotes.
\<close>

definition classify_contours ::
  "('a, 'r) cv2 \<Rightarrow> 'a pyarg \<Rightarrow> real option \<Rightarrow> error + 'a buckets" where
  "classify_contours cv contours circularity_threshold =
     (let thr = (case circularity_threshold of None \<Rightarrow> fl 0.8 | Some t \<Rightarrow> t)
      in case contours of
           PyOther \<Rightarrow> Inl TypeError
         | PyList xs \<Rightarrow>
             if xs = [] then Inl ValueError else classify_loop cv thr xs ([], [], [])
         | PyTuple xs \<Rightarrow>
             if xs = [] then Inl ValueError else classify_loop cv thr xs ([], [], []))"


section \<open>The colour classifier and the object labeler (\<^verbatim>\<open>detected_figures.py\<close>)\<close>

type_synonym hsv = "int \<times> int \<times> int"

text \<open>
  The HSV image: \<^verbatim>\<open>shape[0]\<close> rows, \<^verbatim>\<open>shape[1]\<close> columns and the pixel at row
  \<open>y\<close>, column \<open>x\<close>. \<^verbatim>\<open>cv2.cvtColor\<close> keeps the shape, so the same record stands
  for \<^verbatim>\<open>image\<close> and \<^verbatim>\<open>hsv\<close> in the bounds checks.
\<close>

record image =
  rows :: nat
  cols :: nat
  pixel :: "nat \<Rightarrow> nat \<Rightarrow> hsv"

text \<open>
  A value of the range table: a Python list of (lower, upper) pairs, or one pair.
  The table is a dict, read in insertion order: an association list.
\<close>

datatype ranges = RangeList "(hsv \<times> hsv) list" | RangePair hsv hsv

type_synonym range_table = "(string \<times> ranges) list"

text \<open>
  Modelled from the spec: \<^verbatim>\<open>cv2.inRange\<close> is an OpenCV primitive, not code of the
  repository. On the one-pixel image it yields 255 exactly when each channel lies
  within the closed bounds, else 0; \<open>inRange\<close> is the test \<^verbatim>\<open>mask[0, 0] == 255\<close>.
\<close>

fun inRange :: "hsv \<Rightarrow> hsv \<Rightarrow> hsv \<Rightarrow> bool" where
  "inRange (h, s, v) (lh, ls, lv) (uh, us, uv) =
     (lh \<le> h \<and> h \<le> uh \<and> ls \<le> s \<and> s \<le> us \<and> lv \<le> v \<and> v \<le> uv)"

text \<open>The inner loop \<^verbatim>\<open>for lower, upper in ranges\<close>: true when it returns the name.\<close>

fun any_range :: "hsv \<Rightarrow> (hsv \<times> hsv) list \<Rightarrow> bool" where
  "any_range px [] = False"
| "any_range px ((lower, upper) # rest) =
     (if inRange px lower upper then True else any_range px rest)"

text \<open>The outer loop \<^verbatim>\<open>for color_name, ranges in color_ranges.items()\<close>.\<close>

fun color_loop :: "hsv \<Rightarrow> range_table \<Rightarrow> string" where
  "color_loop px [] = ''unknown''"
| "color_loop px ((color_name, RangeList rs) # rest) =
     (if any_range px rs then color_name else color_loop px rest)"
| "color_loop px ((color_name, RangePair lower upper) # rest) =
     (if inRange px lower upper then color_name else color_loop px rest)"

definition get_color_at_point :: "image \<Rightarrow> int \<Rightarrow> int \<Rightarrow> range_table \<Rightarrow> string" where
  "get_color_at_point hsv_img x y color_ranges =
     (if x < 0 \<or> y < 0 \<or> x \<ge> int (cols hsv_img) \<or> y \<ge> int (rows hsv_img) then ''unknown''
      else color_loop (pixel hsv_img (nat y) (nat x)) color_ranges)"

text \<open>The table built when \<^verbatim>\<open>color_hsv_ranges\<close> is \<^verbatim>\<open>None\<close>.\<close>

definition default_ranges :: range_table where
  "default_ranges =
     [(''red'', RangeList [((0, 50, 50), (10, 255, 255)), ((160, 50, 50), (180, 255, 255))]),
      (''green'', RangePair (35, 50, 50) (85, 255, 255)),
      (''blue'', RangePair (100, 50, 50) (130, 255, 255)),
      (''yellow'', RangePair (20, 50, 50) (35, 255, 255))]"

text \<open>
  The loop over \<^verbatim>\<open>zip(contours_list, shape_labels)\<close>, with \<^verbatim>\<open>results\<close> as the
  state. Drawing on the output image and writing it to disk do not change
  \<^verbatim>\<open>results\<close> and are left out.
\<close>

fun label_loop ::
  "('a, 'r) cv2 \<Rightarrow> image \<Rightarrow> range_table \<Rightarrow> ('a \<times> 'l) list \<Rightarrow> ('a \<times> 'l \<times> string) list
     \<Rightarrow> ('a \<times> 'l \<times> string) list" where
  "label_loop cv img tbl [] results = results"
| "label_loop cv img tbl ((contour, shape_label) # rest) results =
     (let area = contourArea cv contour
      in if area < 100 then label_loop cv img tbl rest results
         else
           (let M = cv_moments cv contour
            in if m00 M \<noteq> 0 then
                 (let cx = py_int (m10 M / m00 M);
                      cy = py_int (m01 M / m00 M);
                      color = (if cx < 0 \<or> cy < 0 \<or> cx \<ge> int (cols img) \<or> cy \<ge> int (rows img)
                               then ''unknown''
                               else get_color_at_point img cx cy tbl)
                  in label_loop cv img tbl rest (results @ [(contour, shape_label, color)]))
               else label_loop cv img tbl rest results))"

text \<open>
  \<^verbatim>\<open>detect_shapes_and_colors\<close>: \<open>loaded\<close> is what \<^verbatim>\<open>cv2.imread\<close> returned (\<open>None\<close>
  when the file could not be read), already converted to HSV.
\<close>

definition detect_shapes_and_colors ::
  "('a, 'r) cv2 \<Rightarrow> image option \<Rightarrow> 'a list \<Rightarrow> 'l list \<Rightarrow> range_table option
     \<Rightarrow> error + ('a \<times> 'l \<times> string) list" where
  "detect_shapes_and_colors cv loaded contours_list shape_labels color_hsv_ranges =
     (case loaded of
        None \<Rightarrow> Inl FileNotFoundError
      | Some img \<Rightarrow>
          (let tbl = (case color_hsv_ranges of None \<Rightarrow> default_ranges | Some t \<Rightarrow> t)
           in Inr (label_loop cv img tbl (zip contours_list shape_labels) [])))"

section \<open>Vocabulary of the statements\<close>

text \<open>The array elements of the argument, in order: what the loop does not skip.\<close>

fun ndarrays :: "'a pyobj list \<Rightarrow> 'a list" where
  "ndarrays [] = []"
| "ndarrays (NotArray # xs) = ndarrays xs"
| "ndarrays (NdArray c # xs) = c # ndarrays xs"

text \<open>
  The conditions under which the loop appends a contour to \<^verbatim>\<open>circles\<close> and to
  \<^verbatim>\<open>rects\<close>, read off its branches. They are used to state where a contour ends
  up; the loop itself is \<open>classify_loop\<close>.
\<close>

definition in_circles :: "('a, 'r) cv2 \<Rightarrow> real \<Rightarrow> 'a \<Rightarrow> bool" where
  "in_circles cv thr c =
     (0 < arcLength cv c True \<and> 0 < contourArea cv c
      \<and> thr < circularity (contourArea cv c) (arcLength cv c True))"

definition in_rects :: "('a, 'r) cv2 \<Rightarrow> real \<Rightarrow> 'a \<Rightarrow> bool" where
  "in_rects cv thr c =
     (0 < arcLength cv c True \<and> 0 < contourArea cv c
      \<and> circularity (contourArea cv c) (arcLength cv c True) \<le> thr
      \<and> (detect cv c = Inr Rectangle \<or> detect cv c = Inr Square)
      \<and> 0 < box_area cv c \<and> 0.95 < contourArea cv c / box_area cv c)"

text \<open>
  The spec's wording of a table entry matching a pixel: a list of intervals matches
  when any one of them contains the pixel, a single interval when it does.
\<close>

fun entry_matches :: "hsv \<Rightarrow> ranges \<Rightarrow> bool" where
  "entry_matches px (RangeList rs) = (\<exists>(lower, upper) \<in> set rs. inRange px lower upper)"
| "entry_matches px (RangePair lower upper) = inRange px lower upper"

section \<open>A test fixture\<close>

text \<open>
  Seven contours, named by numbers, and what OpenCV answers for them:
  \<^item> 0: the axis-aligned 100 by 100 square of the spec's end-to-end example;
  \<^item> 1: a discretised circle of radius 50 around (200, 50);
  \<^item> 2: a two-point line, of area 0;
  \<^item> 3: a ragged quadrilateral that fills three quarters of its box;
  \<^item> 4: a triangle, whose centroid (400, 50) is outside the image;
  \<^item> 5: the rectangle with corners (-11, 0) and (10, 10), of centroid (-1/2, 5);
  \<^item> 6: a speck of area 50.
  The simplified polygon of contour \<open>n\<close> is the array \<open>n + 10\<close>, the corner points of
  its minimum-area rectangle the array \<open>n + 20\<close> and their integer array \<open>n + 30\<close>.
\<close>

definition sample_cv :: "(int, int) cv2" where
  "sample_cv =
     \<lparr> contourArea = (\<lambda>a. if a = 0 then 10000 else if a = 1 then 7800 else if a = 2 then 0
                          else if a = 3 then 6000 else if a = 4 then 5000
                          else if a = 5 then 210 else if a = 6 then 50
                          else if a = 30 then 10000 else if a = 33 then 8000
                          else if a = 35 then 210 else 0),
       arcLength = (\<lambda>a closed. if a = 0 then 400 else if a = 1 then 330 else if a = 2 then 20
                          else if a = 3 then 400 else if a = 4 then 340
                          else if a = 5 then 62 else if a = 6 then 30 else 0),
       approxPolyDP = (\<lambda>a eps closed. a + 10),
       len = (\<lambda>a. if a = 10 then 4 else if a = 11 then 8 else if a = 12 then 2
                   else if a = 13 then 4 else if a = 14 then 3 else if a = 15 then 4 else 6),
       boundingRect = (\<lambda>a. if a = 10 then (0, 0, 101, 101) else if a = 13 then (0, 0, 101, 81)
                             else if a = 15 then (- 11, 0, 22, 11) else (0, 0, 1, 1)),
       minAreaRect = (\<lambda>a. a),
       boxPoints = (\<lambda>r. r + 20),
       points = (\<lambda>a. if a = 20 then [(0, 0), (100, 0), (100, 100), (0, 100)]
                      else if a = 23 then [(0, 0), (100, 0), (100, 80), (0, 80)]
                      else if a = 25 then [(- 11, 0), (10, 0), (10, 10), (- 11, 10)] else []),
       int_array = (\<lambda>ps. if ps = [(0, 0), (100, 0), (100, 100), (0, 100)] then 30
                          else if ps = [(0, 0), (100, 0), (100, 80), (0, 80)] then 33
                          else if ps = [(- 11, 0), (10, 0), (10, 10), (- 11, 10)] then 35
                          else 39),
       cv_moments = (\<lambda>a. if a = 0 then \<lparr>m00 = 10000, m10 = 500000, m01 = 500000\<rparr>
                           else if a = 1 then \<lparr>m00 = 7800, m10 = 1560000, m01 = 390000\<rparr>
                           else if a = 3 then \<lparr>m00 = 6000, m10 = 1560000, m01 = 240000\<rparr>
                           else if a = 4 then \<lparr>m00 = 5000, m10 = 2000000, m01 = 250000\<rparr>
                           else if a = 5 then \<lparr>m00 = 210, m10 = - 105, m01 = 1050\<rparr>
                           else if a = 6 then \<lparr>m00 = 50, m10 = 500, m01 = 500\<rparr>
                           else \<lparr>m00 = 0, m10 = 0, m01 = 0\<rparr>) \<rparr>"

text \<open>
  A 300 by 120 image: red left of column 150, hue 35 (inside both the green and the
  yellow interval of the default table) up to column 250, white beyond.
\<close>

definition sample_img :: image where
  "sample_img =
     \<lparr> rows = 120, cols = 300,
       pixel = (\<lambda>y x. if x < 150 then (0, 200, 200)
                       else if x < 250 then (35, 200, 200) else (0, 0, 255)) \<rparr>"

definition sample_contours :: "int pyobj list" where
  "sample_contours = [NdArray 0, NdArray 1, NotArray, NdArray 2, NdArray 3, NdArray 4]"


text \<open>
  A second fixture, on arrays given by their points. The contour \<open>quad\<close> is the
  quadrilateral (50, 4), (65, 7), (65, 49), (49, 52): its area is 697.5 by the shoelace
  formula, which is what \<^verbatim>\<open>cv2.contourArea\<close> computes, its perimeter about 121.59, its
  simplified polygon itself and its bounding box 17 by 49. Its minimum-area rectangle
  lies along the edge from (49, 52) to (50, 4); the corner points are given to five
  decimals, the second as single-precision arithmetic leaves it, just below 52.
\<close>

fun edge_sum :: "real \<times> real \<Rightarrow> (real \<times> real) list \<Rightarrow> real" where
  "edge_sum first [] = 0"
| "edge_sum first [(x, y)] = x * snd first - fst first * y"
| "edge_sum first ((x, y) # (x', y') # rest) =
     x * y' - x' * y + edge_sum first ((x', y') # rest)"

definition shoelace :: "(real \<times> real) list \<Rightarrow> real" where
  "shoelace ps = (case ps of [] \<Rightarrow> 0 | p # _ \<Rightarrow> \<bar>edge_sum p ps\<bar> / 2)"

definition quad :: "(real \<times> real) list" where
  "quad = [(50, 4), (65, 7), (65, 49), (49, 52)]"

definition quad_cv :: "((real \<times> real) list, (real \<times> real) list) cv2" where
  "quad_cv =
     \<lparr> contourArea = shoelace,
       arcLength = (\<lambda>a closed. 15563 / 128),
       approxPolyDP = (\<lambda>a eps closed. a),
       len = length,
       boundingRect = (\<lambda>a. (49, 4, 17, 49)),
       minAreaRect = (\<lambda>a. [(50, 4), (49, 51.99999), (64.93059, 52.33189), (65.93059, 4.33189)]),
       boxPoints = (\<lambda>r. r),
       points = (\<lambda>a. a),
       int_array = map (\<lambda>(x, y). (real_of_int x, real_of_int y)),
       cv_moments = (\<lambda>a. \<lparr>m00 = 0, m10 = 0, m01 = 0\<rparr>) \<rparr>"


section \<open>Rounding to the nearest double\<close>

lemma fl_eval:
  assumes "2 powi e \<le> \<bar>x\<bar>" and "\<bar>x\<bar> < 2 powi (e + 1)" and "- 1022 \<le> e"
  shows "fl x = of_int (rne (x / 2 powi (e - 52))) * 2 powi (e - 52)"
proof -
  have pos: "0 < \<bar>x\<bar>"
  proof -
    have "0 < (2::real) powi e" by simp
    with assms(1) show ?thesis by linarith
  qed
  have e1: "(2::real) powr real_of_int e = 2 powi e"
    by (simp add: powr_real_of_int')
  have "(2::real) powr real_of_int (e + 1) = 2 powi (e + 1)"
    by (rule powr_real_of_int') simp_all
  then have e2: "(2::real) powr (real_of_int e + 1) = 2 powi (e + 1)"
    by simp
  have "2 powr real_of_int e \<le> \<bar>x\<bar> \<and> \<bar>x\<bar> < 2 powr (real_of_int e + 1)"
    using assms(1,2) by (simp only: e1 e2)
  then have "\<lfloor>log 2 \<bar>x\<bar>\<rfloor> = e"
    using pos by (simp add: floor_log_eq_powr_iff)
  then show ?thesis
    using pos assms(3) by (auto simp: fl_def Let_def max_def)
qed



lemma fl_4np_pi: "fl (4 * np_pi) = 4 * np_pi"
  by (subst fl_eval [of 3]) (simp_all add: np_pi_def rne_def)

lemma fl_thresholds:
  "fl (4 / 5) = 3602879701896397 / 2 ^ 52"
  "fl (41 / 50) = 7385903388887613 / 2 ^ 53"
  by (subst fl_eval [of "- 1"]; simp add: rne_def)+

lemma circularity_square: "circularity 10000 400 = np_pi / 4"
proof -
  have b: "fl (4 * np_pi * 10000) = 2158886032723523 / 2 ^ 34"
    by (subst fl_eval [of 16]) (simp_all add: np_pi_def rne_def)
  have c: "fl (400\<^sup>2) = 160000"
    by (subst fl_eval [of 17]) (simp_all add: rne_def)
  have d: "fl (2158886032723523 / 2 ^ 34 / 160000) = np_pi / 4"
    by (subst fl_eval [of "- 1"]) (simp_all add: np_pi_def rne_def)
  show ?thesis
    by (simp only: circularity_def fl_4np_pi b c d)
qed

lemma circularity_circle: "circularity 7800 330 = 8107115440341133 / 2 ^ 53"
proof -
  have b: "fl (4 * np_pi * 7800) = 420982776381087 / 2 ^ 32"
    by (subst fl_eval [of 16]) (simp_all add: np_pi_def rne_def)
  have c: "fl (330\<^sup>2) = 108900"
    by (subst fl_eval [of 16]) (simp_all add: rne_def)
  have d: "fl (420982776381087 / 2 ^ 32 / 108900) = 8107115440341133 / 2 ^ 53"
    by (subst fl_eval [of "- 1"]) (simp_all add: rne_def)
  show ?thesis
    by (simp only: circularity_def fl_4np_pi b c d)
qed

lemma circularity_ragged: "circularity 6000 400 = 530567831402133 / 2 ^ 50"
proof -
  have b: "fl (4 * np_pi * 6000) = 5181326478536455 / 2 ^ 36"
    by (subst fl_eval [of 16]) (simp_all add: np_pi_def rne_def)
  have c: "fl (400\<^sup>2) = 160000"
    by (subst fl_eval [of 17]) (simp_all add: rne_def)
  have d: "fl (5181326478536455 / 2 ^ 36 / 160000) = 530567831402133 / 2 ^ 50"
    by (subst fl_eval [of "- 2"]) (simp_all add: rne_def)
  show ?thesis
    by (simp only: circularity_def fl_4np_pi b c d)
qed

lemma circularity_triangle: "circularity 5000 340 = 4895666264379543 / 2 ^ 53"
proof -
  have b: "fl (4 * np_pi * 5000) = 2158886032723523 / 2 ^ 35"
    by (subst fl_eval [of 15]) (simp_all add: np_pi_def rne_def)
  have c: "fl (340\<^sup>2) = 115600"
    by (subst fl_eval [of 16]) (simp_all add: rne_def)
  have d: "fl (2158886032723523 / 2 ^ 35 / 115600) = 4895666264379543 / 2 ^ 53"
    by (subst fl_eval [of "- 1"]) (simp_all add: rne_def)
  show ?thesis
    by (simp only: circularity_def fl_4np_pi b c d)
qed

lemma circularity_quad: "circularity (1395 / 2) (15563 / 128) = 333777584872633 / 2 ^ 49"
proof -
  have b: "fl (4 * np_pi * (1395 / 2)) = 4818633625038903 / 2 ^ 39"
    by (subst fl_eval [of 13]) (simp_all add: np_pi_def rne_def)
  have c: "fl ((15563 / 128)\<^sup>2) = 242206969 / 2 ^ 14"
    by (subst fl_eval [of 13]) (simp_all add: rne_def power_divide)
  have d: "fl (4818633625038903 / 2 ^ 39 / (242206969 / 2 ^ 14)) = 333777584872633 / 2 ^ 49"
    by (subst fl_eval [of "- 1"]) (simp_all add: rne_def)
  show ?thesis
    by (simp only: circularity_def fl_4np_pi b c d)
qed

section \<open>\<open>np.pi\<close> is below \<open>pi\<close>\<close>





section \<open>The partitioner loop\<close>


lemma classify_step:
  "classify_loop cv thr (NdArray c # rest) (ci, re, ot) =
     (if in_circles cv thr c then classify_loop cv thr rest (ci @ [c], re, ot)
      else if in_rects cv thr c then classify_loop cv thr rest (ci, re @ [c], ot)
      else if 0 < arcLength cv c True \<and> 0 < contourArea cv c then
        (case detect cv c of
           Inl e \<Rightarrow> Inl e
         | Inr s \<Rightarrow> classify_loop cv thr rest (ci, re, ot @ [c]))
      else classify_loop cv thr rest (ci, re, ot @ [c]))"
proof (cases "detect cv c")
  case (Inl e)
  then show ?thesis
    by (simp add: in_circles_def in_rects_def Let_def not_less not_le)
next
  case (Inr s)
  then show ?thesis
    by (cases s) (simp_all add: in_circles_def in_rects_def Let_def not_less not_le)
qed


lemma classify_loop_buckets:
  "classify_loop cv thr xs (ci, re, ot) = Inr (ci', re', ot') \<Longrightarrow>
     ci' = ci @ filter (in_circles cv thr) (ndarrays xs)
     \<and> re' = re @ filter (in_rects cv thr) (ndarrays xs)
     \<and> ot' = ot @ filter (\<lambda>c. \<not> in_circles cv thr c \<and> \<not> in_rects cv thr c) (ndarrays xs)"
proof (induction xs arbitrary: ci re ot)
  case Nil
  then show ?case by simp
next
  case (Cons x xs)
  show ?case
  proof (cases x)
    case (NdArray c)
    have excl: "\<not> (in_circles cv thr c \<and> in_rects cv thr c)"
      by (auto simp: in_circles_def in_rects_def)
    show ?thesis
      using Cons.prems excl unfolding NdArray classify_step
      by (auto split: if_splits sum.splits dest!: Cons.IH)
  next
    case NotArray
    then show ?thesis using Cons by simp
  qed
qed





section \<open>The partitioner as a whole, and the fixture evaluated\<close>


lemma classify_contours_buckets:
  assumes "contours = PyList xs \<or> contours = PyTuple xs"
      and "thr = (case t of None \<Rightarrow> fl 0.8 | Some v \<Rightarrow> v)"
      and "classify_contours cv contours t = Inr (circles, rects, others)"
  shows "circles = filter (in_circles cv thr) (ndarrays xs)"
    and "rects = filter (in_rects cv thr) (ndarrays xs)"
    and "others = filter (\<lambda>c. \<not> in_circles cv thr c \<and> \<not> in_rects cv thr c) (ndarrays xs)"
proof -
  have "classify_loop cv thr xs ([], [], []) = Inr (circles, rects, others)"
    using assms by (auto simp: classify_contours_def split: if_splits)
  from classify_loop_buckets [OF this]
  show "circles = filter (in_circles cv thr) (ndarrays xs)"
    and "rects = filter (in_rects cv thr) (ndarrays xs)"
    and "others = filter (\<lambda>c. \<not> in_circles cv thr c \<and> \<not> in_rects cv thr c) (ndarrays xs)"
    by simp_all
qed


lemma sample_detect:
  "detect sample_cv 0 = Inr Square"
  "detect sample_cv 1 = Inr Unknown"
  "detect sample_cv 3 = Inr Rectangle"
  "detect sample_cv 4 = Inr Unknown"
  by (simp_all add: detect_def sample_cv_def)

lemma threshold_bounds:
  "np_pi / 4 \<le> 4 / 5" "(4::real) / 5 \<le> 9 / 10" "np_pi / 4 \<le> 41 / 50" "(41::real) / 50 \<le> 9 / 10"
  "np_pi / 4 \<le> fl (4 / 5)" "fl (4 / 5) \<le> 9 / 10" "np_pi / 4 \<le> fl (41 / 50)" "fl (41 / 50) \<le> 9 / 10"
  by (simp_all add: fl_thresholds np_pi_def)

lemma sample_in_circles:
  "np_pi / 4 \<le> thr \<Longrightarrow> \<not> in_circles sample_cv thr 0"
  "thr \<le> 9 / 10 \<Longrightarrow> in_circles sample_cv thr 1"
  "\<not> in_circles sample_cv thr 2"
  "np_pi / 4 \<le> thr \<Longrightarrow> \<not> in_circles sample_cv thr 3"
  "np_pi / 4 \<le> thr \<Longrightarrow> \<not> in_circles sample_cv thr 4"
  by (simp_all add: in_circles_def sample_cv_def circularity_square circularity_circle
        circularity_ragged circularity_triangle np_pi_def)

lemma sample_box_area: "box_area sample_cv 0 = 10000" "box_area sample_cv 3 = 8000"
  by (simp_all add: box_area_def np_intp_def sample_cv_def py_int_def)

lemma sample_in_rects:
  "np_pi / 4 \<le> thr \<Longrightarrow> in_rects sample_cv thr 0"
  "\<not> in_rects sample_cv thr 2"
  "\<not> in_rects sample_cv thr 3"
  "\<not> in_rects sample_cv thr 4"
proof -
  show "in_rects sample_cv thr 0" if "np_pi / 4 \<le> thr"
    using that by (simp add: in_rects_def sample_detect sample_box_area)
      (simp add: sample_cv_def circularity_square)
  show "\<not> in_rects sample_cv thr 2"
    by (simp add: in_rects_def sample_cv_def)
  show "\<not> in_rects sample_cv thr 3"
    by (simp add: in_rects_def sample_box_area) (simp add: sample_cv_def)
  show "\<not> in_rects sample_cv thr 4"
    by (simp add: in_rects_def sample_detect)
qed

lemma sample_positive:
  "\<not> (0 < arcLength sample_cv 2 True \<and> 0 < contourArea sample_cv 2)"
  "0 < arcLength sample_cv 3 True \<and> 0 < contourArea sample_cv 3"
  "0 < arcLength sample_cv 4 True \<and> 0 < contourArea sample_cv 4"
  by (simp_all add: sample_cv_def)

lemma sample_loop_any:
  assumes "np_pi / 4 \<le> thr" and "thr \<le> 9 / 10"
  shows "classify_loop sample_cv thr sample_contours ([], [], []) = Inr ([1], [0], [2, 3, 4])"
  unfolding sample_contours_def using assms
  by (simp add: classify_step sample_in_circles sample_in_rects sample_positive sample_detect
        del: classify_loop.simps(3))


lemma sample_run:
  "classify_contours sample_cv (PyList sample_contours) None = Inr ([1], [0], [2, 3, 4])"
  "classify_contours sample_cv (PyTuple sample_contours) (Some (fl 0.82)) = Inr ([1], [0], [2, 3, 4])"
proof -
  have ne: "sample_contours \<noteq> []"
    by (simp add: sample_contours_def)
  show "classify_contours sample_cv (PyList sample_contours) None = Inr ([1], [0], [2, 3, 4])"
    using sample_loop_any [OF threshold_bounds(5,6)] ne by (simp add: classify_contours_def)
  show "classify_contours sample_cv (PyTuple sample_contours) (Some (fl 0.82)) =
          Inr ([1], [0], [2, 3, 4])"
    using sample_loop_any [OF threshold_bounds(7,8)] ne by (simp add: classify_contours_def)
qed

section \<open>Input validation of the partitioner\<close>





section \<open>The circularity gate\<close>










section \<open>The fill-ratio test for rectangles\<close>

lemma py_int_truncates:
  "\<bar>real_of_int (py_int r)\<bar> \<le> \<bar>r\<bar> \<and> \<bar>r - real_of_int (py_int r)\<bar> < 1"
  unfolding py_int_def by (auto; linarith)

lemma quad_measures:
  "contourArea quad_cv quad = 1395 / 2"
  "arcLength quad_cv quad True = 15563 / 128"
  "detect quad_cv quad = Inr Rectangle"
  "box_area quad_cv quad = 713"
  "contourArea quad_cv
     (int_array quad_cv
        (map (\<lambda>(x, y). (round x, round y))
           (points quad_cv (boxPoints quad_cv (minAreaRect quad_cv quad))))) = 768"
proof -
  show "contourArea quad_cv quad = 1395 / 2"
    by (simp add: quad_cv_def quad_def shoelace_def)
  show "arcLength quad_cv quad True = 15563 / 128"
    by (simp add: quad_cv_def)
  show "detect quad_cv quad = Inr Rectangle"
    by (simp add: detect_def quad_cv_def quad_def)
  show "box_area quad_cv quad = 713"
    by (simp add: box_area_def np_intp_def quad_cv_def shoelace_def py_int_def)
  show "contourArea quad_cv
     (int_array quad_cv
        (map (\<lambda>(x, y). (round x, round y))
           (points quad_cv (boxPoints quad_cv (minAreaRect quad_cv quad))))) = 768"
    by (simp add: quad_cv_def shoelace_def round_def)
qed

lemma quad_run: "classify_contours quad_cv (PyList [NdArray quad]) None = Inr ([], [quad], [])"
proof -
  have nc: "\<not> in_circles quad_cv (fl (4 / 5)) quad"
    by (simp add: in_circles_def quad_measures circularity_quad fl_thresholds)
  have re: "in_rects quad_cv (fl (4 / 5)) quad"
    by (simp add: in_rects_def quad_measures circularity_quad fl_thresholds)
  show ?thesis
    using nc re by (simp add: classify_contours_def classify_step del: classify_loop.simps(3))
qed

text \<open>
  C3, as amended. A contour that reaches \<open>detect\<close> (positive perimeter and area,
  circularity at most the threshold) and is classified \<open>Rectangle\<close> or \<open>Square\<close> has the
  corner points of its minimum-area rectangle converted to integers by truncation
  toward zero, which is what \<^verbatim>\<open>np.intp\<close> does. It is kept in the rectangles bucket exactly
  when the area of that integer box is positive and
  \<open>contour_area / rectangle_area > 0.95\<close>; otherwise it is in the others bucket; it is
  never in the circles bucket.
\<close>

theorem rectangle_fill_ratio:
  assumes "contours = PyList xs \<or> contours = PyTuple xs"
      and "thr = (case t of None \<Rightarrow> fl 0.8 | Some v \<Rightarrow> v)"
      and "classify_contours cv contours t = Inr (circles, rects, others)"
      and "c \<in> set (ndarrays xs)"
      and "0 < arcLength cv c True" and "0 < contourArea cv c"
      and "circularity (contourArea cv c) (arcLength cv c True) \<le> thr"
      and "detect cv c = Inr Rectangle \<or> detect cv c = Inr Square"
      and "box = map (\<lambda>(x, y). (py_int x, py_int y)) (points cv (boxPoints cv (minAreaRect cv c)))"
      and "rectangle_area = contourArea cv (int_array cv box)"
  shows "(c \<in> set rects \<longleftrightarrow> 0 < rectangle_area \<and> 0.95 < contourArea cv c / rectangle_area)
       \<and> (c \<in> set others \<longleftrightarrow>
            \<not> (0 < rectangle_area \<and> 0.95 < contourArea cv c / rectangle_area))
       \<and> c \<notin> set circles
       \<and> \<bar>real_of_int (py_int r)\<bar> \<le> \<bar>r\<bar> \<and> \<bar>r - real_of_int (py_int r)\<bar> < 1"
proof -
  have box: "box_area cv c = rectangle_area"
    by (simp add: box_area_def np_intp_def assms(9,10))
  have nc: "\<not> in_circles cv thr c"
    using assms(7) by (simp add: in_circles_def not_less)
  have re: "in_rects cv thr c \<longleftrightarrow>
              0 < rectangle_area \<and> 0.95 < contourArea cv c / rectangle_area"
    using assms(5-8) by (simp add: in_rects_def box)
  show ?thesis
    unfolding classify_contours_buckets [OF assms(1-3)]
    using assms(4) nc re py_int_truncates [of r] by simp
qed

theorem rectangle_fill_ratio_witness:
  "classify_contours sample_cv (PyList sample_contours) None = Inr ([1], [0], [2, 3, 4])
   \<and> detect sample_cv 0 = Inr Square \<and> detect sample_cv 3 = Inr Rectangle
   \<and> 0 \<in> set [0::int] \<and> 0.95 < contourArea sample_cv 0 / 10000
   \<and> 3 \<in> set [2, 3, 4::int] \<and> \<not> 0.95 < contourArea sample_cv 3 / 8000
   \<and> classify_contours quad_cv (PyList [NdArray quad]) None = Inr ([], [quad], [])
   \<and> quad \<in> set [quad] \<and> 0.95 < contourArea quad_cv quad / 713"
proof -
  have thr: "fl 0.8 = (case None of None \<Rightarrow> fl 0.8 | Some v \<Rightarrow> v)"
    by simp
  have t: "np_pi / 4 \<le> fl 0.8"
    using threshold_bounds(5) by simp
  have mem: "0 \<in> set (ndarrays sample_contours)" "3 \<in> set (ndarrays sample_contours)"
    by (simp_all add: sample_contours_def)
  have c0: "0 < arcLength sample_cv 0 True" "0 < contourArea sample_cv 0"
      "circularity (contourArea sample_cv 0) (arcLength sample_cv 0 True) \<le> fl 0.8"
      "[(0, 0), (100, 0), (100, 100), (0, 100)] =
         map (\<lambda>(x, y). (py_int x, py_int y))
           (points sample_cv (boxPoints sample_cv (minAreaRect sample_cv 0)))"
      "10000 = contourArea sample_cv (int_array sample_cv [(0, 0), (100, 0), (100, 100), (0, 100)])"
    using t by (simp_all add: sample_cv_def circularity_square py_int_def)
  have c3: "0 < arcLength sample_cv 3 True" "0 < contourArea sample_cv 3"
      "circularity (contourArea sample_cv 3) (arcLength sample_cv 3 True) \<le> fl 0.8"
      "[(0, 0), (100, 0), (100, 80), (0, 80)] =
         map (\<lambda>(x, y). (py_int x, py_int y))
           (points sample_cv (boxPoints sample_cv (minAreaRect sample_cv 3)))"
      "8000 = contourArea sample_cv (int_array sample_cv [(0, 0), (100, 0), (100, 80), (0, 80)])"
    using t by (simp_all add: sample_cv_def circularity_ragged py_int_def np_pi_def)
  have q: "quad \<in> set (ndarrays [NdArray quad])"
      "0 < arcLength quad_cv quad True" "0 < contourArea quad_cv quad"
      "circularity (contourArea quad_cv quad) (arcLength quad_cv quad True) \<le> fl 0.8"
      "[(50, 4), (49, 51), (64, 52), (65, 4)] =
         map (\<lambda>(x, y). (py_int x, py_int y))
           (points quad_cv (boxPoints quad_cv (minAreaRect quad_cv quad)))"
      "713 = contourArea quad_cv (int_array quad_cv [(50, 4), (49, 51), (64, 52), (65, 4)])"
  proof -
    show "quad \<in> set (ndarrays [NdArray quad])"
      by simp
    show "0 < arcLength quad_cv quad True" "0 < contourArea quad_cv quad"
      "circularity (contourArea quad_cv quad) (arcLength quad_cv quad True) \<le> fl 0.8"
      by (simp_all add: quad_measures circularity_quad fl_thresholds)
    show "[(50, 4), (49, 51), (64, 52), (65, 4)] =
         map (\<lambda>(x, y). (py_int x, py_int y))
           (points quad_cv (boxPoints quad_cv (minAreaRect quad_cv quad)))"
      by (simp add: quad_cv_def py_int_def)
    show "713 = contourArea quad_cv (int_array quad_cv [(50, 4), (49, 51), (64, 52), (65, 4)])"
      by (simp add: quad_cv_def shoelace_def)
  qed
  note a = rectangle_fill_ratio [OF disjI1 [OF refl] thr sample_run(1) mem(1) c0(1-3)
      disjI2 [OF sample_detect(1)] c0(4,5)]
  note b = rectangle_fill_ratio [OF disjI1 [OF refl] thr sample_run(1) mem(2) c3(1-3)
      disjI1 [OF sample_detect(3)] c3(4,5)]
  note d = rectangle_fill_ratio [OF disjI1 [OF refl] thr quad_run q(1-4)
      disjI1 [OF quad_measures(3)] q(5,6)]
  have "0 \<in> set [0::int] \<and> 0.95 < contourArea sample_cv 0 / 10000"
    using a by simp
  moreover have "3 \<in> set [2, 3, 4::int] \<and> \<not> 0.95 < contourArea sample_cv 3 / 8000"
    using b by simp
  moreover have "quad \<in> set [quad] \<and> 0.95 < contourArea quad_cv quad / 713"
    using d by simp
  ultimately show ?thesis
    using sample_run(1) sample_detect(1,3) quad_run by blast
qed

text \<open>
  C3, as written, has the corner points rounded to integers. For the quadrilateral
  \<open>quad\<close>, of area 697.5, the rounded corners enclose an area of 768 and the ratio
  697.5 / 768 is below 0.95, so the contour would go to the others; the code truncates,
  the truncated corners enclose 713, and the contour is kept in the rectangles.
\<close>

theorem corner_rounding_counterexample:
  "detect quad_cv quad = Inr Rectangle
   \<and> contourArea quad_cv quad = 1395 / 2
   \<and> contourArea quad_cv
       (int_array quad_cv
          (map (\<lambda>(x, y). (round x, round y))
             (points quad_cv (boxPoints quad_cv (minAreaRect quad_cv quad))))) = 768
   \<and> \<not> 0.95 < (1395 / 2) / (768::real)
   \<and> classify_contours quad_cv (PyList [NdArray quad]) None = Inr ([], [quad], [])"
proof -
  have "\<not> 0.95 < (1395 / 2) / (768::real)"
    by simp
  with quad_measures(1,3,5) quad_run show ?thesis
    by blast
qed


section \<open>Degenerate contours\<close>



section \<open>Order of the buckets\<close>

lemma subseq_ndarrays: "subseq (map NdArray (ndarrays xs)) xs"
  by (induction xs rule: ndarrays.induct) auto

lemma filter_keeps_precedence:
  assumes "ys = u @ a # v @ d # w" and "P a" and "P d"
  shows "\<exists>u' v' w'. filter P ys = u' @ a # v' @ d # w'"
proof -
  have "filter P ys = filter P u @ a # filter P v @ d # filter P w"
    using assms by simp
  then show ?thesis by blast
qed

text \<open>
  C9. Each bucket of a returning run is a subsequence of the input list: it is made
  from the input by deleting elements, so it keeps the input's relative order. In
  particular, when \<open>a\<close> precedes \<open>d\<close> among the array elements of the input and both are
  in the bucket, \<open>a\<close> precedes \<open>d\<close> in the bucket.
\<close>

theorem buckets_preserve_order:
  assumes "contours = PyList xs \<or> contours = PyTuple xs"
      and "classify_contours cv contours t = Inr (circles, rects, others)"
      and "b = circles \<or> b = rects \<or> b = others"
  shows "subseq (map NdArray b) xs
       \<and> (\<forall>u a v d w. ndarrays xs = u @ a # v @ d # w \<and> a \<in> set b \<and> d \<in> set b \<longrightarrow>
            (\<exists>u' v' w'. b = u' @ a # v' @ d # w'))"
proof -
  obtain P where b: "b = filter P (ndarrays xs)"
    using classify_contours_buckets [OF assms(1) refl assms(2)] assms(3) by metis
  have "subseq (map NdArray b) (map NdArray (ndarrays xs))"
    unfolding b by (simp add: subseq_map)
  then have "subseq (map NdArray b) xs"
    using subseq_ndarrays [of xs] by (rule subseq_order.trans)
  moreover have "\<exists>u' v' w'. b = u' @ a # v' @ d # w'"
    if "ndarrays xs = u @ a # v @ d # w" "a \<in> set b" "d \<in> set b" for u a v d w
    unfolding b using that(1) 
    by (rule filter_keeps_precedence) (use that(2,3) b in auto)
  ultimately show ?thesis
    by blast
qed

theorem buckets_preserve_order_witness:
  "classify_contours sample_cv (PyList sample_contours) None = Inr ([1], [0], [2, 3, 4])
   \<and> subseq (map NdArray [2, 3, 4]) sample_contours
   \<and> (\<exists>u' v' w'. [2, 3, 4::int] = u' @ 2 # v' @ 4 # w')"
proof -
  note a = buckets_preserve_order
      [OF disjI1 [OF refl] sample_run(1), of "[2, 3, 4]", OF disjI2 [OF disjI2 [OF refl]]]
  have split: "ndarrays sample_contours = [0, 1] @ 2 # [3] @ 4 # []"
    by (simp add: sample_contours_def)
  have "2 \<in> set [2, 3, 4::int]" "4 \<in> set [2, 3, 4::int]"
    by simp_all
  with a split have "\<exists>u' v' w'. [2, 3, 4::int] = u' @ 2 # v' @ 4 # w'"
    by blast
  with a sample_run(1) show ?thesis
    by blast
qed

section \<open>The polygon step\<close>

text \<open>
  C1. \<open>detect\<close> simplifies the contour with \<open>approxPolyDP\<close> at epsilon 0.04 times
  its closed perimeter. With \<open>(x, y, w, h)\<close> the bounding box of the simplified polygon
  and \<open>ar = w / h\<close>: a polygon of exactly four vertices gives \<open>Square\<close> when
  \<open>0.95 \<le> ar \<le> 1.05\<close> and \<open>Rectangle\<close> otherwise, any other number of vertices gives
  \<open>Unknown\<close>, and the verdict is one of the first two exactly when the polygon has
  four vertices. The height \<open>h\<close> of the box of a four-vertex polygon is taken to be
  non-zero, as OpenCV has it.
\<close>

theorem detect_polygon_verdict:
  assumes "approx = approxPolyDP cv c (0.04 * arcLength cv c True) True"
      and "boundingRect cv approx = (x, y, w, h)"
      and "ar = real_of_int w / real_of_int h"
  shows "(len cv approx = 4 \<and> h \<noteq> 0 \<and> 0.95 \<le> ar \<and> ar \<le> 1.05 \<longrightarrow> detect cv c = Inr Square)
       \<and> (len cv approx = 4 \<and> h \<noteq> 0 \<and> \<not> (0.95 \<le> ar \<and> ar \<le> 1.05) \<longrightarrow>
            detect cv c = Inr Rectangle)
       \<and> (len cv approx \<noteq> 4 \<longrightarrow> detect cv c = Inr Unknown)
       \<and> (h \<noteq> 0 \<longrightarrow>
            (detect cv c = Inr Square \<or> detect cv c = Inr Rectangle) = (len cv approx = 4))"
proof -
  have four: "detect cv c = Inr (if 0.95 \<le> ar \<and> ar \<le> 1.05 then Square else Rectangle)"
    if "len cv approx = 4" "h \<noteq> 0"
    using that assms by (simp add: detect_def Let_def)
  have other: "detect cv c = Inr Unknown" if "len cv approx \<noteq> 4"
    using that assms(1) by (simp add: detect_def Let_def)
  show ?thesis
    using four other by (cases "len cv approx = 4") auto
qed

theorem detect_polygon_verdict_witness:
  "detect sample_cv 0 = Inr Square \<and> detect sample_cv 3 = Inr Rectangle
   \<and> detect sample_cv 4 = Inr Unknown \<and> len sample_cv 10 = 4"
proof -
  note a = detect_polygon_verdict [of 10 sample_cv 0 0 0 101 101 1]
  note b = detect_polygon_verdict [of 13 sample_cv 3 0 0 101 81 "101 / 81"]
  note d = detect_polygon_verdict [of 14 sample_cv 4 0 0 1 1 1]
  have "detect sample_cv 0 = Inr Square \<and> len sample_cv 10 = 4"
    using a by (simp add: sample_cv_def)
  moreover have "detect sample_cv 3 = Inr Rectangle"
    using b by (simp add: sample_cv_def)
  moreover have "detect sample_cv 4 = Inr Unknown"
    using d by (simp add: sample_cv_def)
  ultimately show ?thesis
    by blast
qed

section \<open>The colour classifier\<close>

lemma any_range_iff: "any_range px rs \<longleftrightarrow> (\<exists>(lower, upper) \<in> set rs. inRange px lower upper)"
  by (induction px rs rule: any_range.induct) auto

lemma color_loop_entry:
  "color_loop px ((name, r) # rest) = (if entry_matches px r then name else color_loop px rest)"
  by (cases r) (simp_all add: any_range_iff)

lemma color_loop_first:
  assumes "\<forall>(n, r') \<in> set pre. \<not> entry_matches px r'" and "entry_matches px r"
  shows "color_loop px (pre @ (name, r) # post) = name"
  using assms
proof (induction pre)
  case Nil
  then show ?case by (simp add: color_loop_entry del: color_loop.simps)
next
  case (Cons e pre)
  obtain n r' where e: "e = (n, r')"
    by (cases e)
  from Cons show ?case
    by (simp add: e color_loop_entry del: color_loop.simps)
qed

lemma color_loop_none:
  assumes "\<forall>(n, r') \<in> set tbl. \<not> entry_matches px r'"
  shows "color_loop px tbl = ''unknown''"
  using assms
proof (induction tbl)
  case Nil
  then show ?case by simp
next
  case (Cons e tbl)
  obtain n r' where e: "e = (n, r')"
    by (cases e)
  from Cons show ?case
    by (simp add: e color_loop_entry del: color_loop.simps)
qed

text \<open>
  C4. For a point inside the image, with \<open>px\<close> the pixel there: the entries of the
  table are tried in order, and the result is the name of the first entry that \<open>px\<close>
  matches, whatever follows it in the table (so of two matching entries the earlier
  wins); a list of intervals matches when \<open>px\<close> lies in any one of them, an interval
  contains \<open>px\<close> when each channel lies within its closed bounds; when no entry
  matches, the result is \<open>unknown\<close>.
\<close>

theorem first_matching_entry_wins:
  assumes "0 \<le> x" and "0 \<le> y" and "x < int (cols img)" and "y < int (rows img)"
      and "px = pixel img (nat y) (nat x)"
  shows "(tbl = pre @ (name, r) # post \<and> (\<forall>(n, r') \<in> set pre. \<not> entry_matches px r')
            \<and> entry_matches px r \<longrightarrow> get_color_at_point img x y tbl = name)
       \<and> ((\<forall>(n, r') \<in> set tbl. \<not> entry_matches px r') \<longrightarrow>
            get_color_at_point img x y tbl = ''unknown'')
       \<and> (entry_matches px (RangeList rs) \<longleftrightarrow>
            (\<exists>(lower, upper) \<in> set rs. inRange px lower upper))
       \<and> (inRange (h, s, v) (lh, ls, lv) (uh, us, uv) \<longleftrightarrow>
            lh \<le> h \<and> h \<le> uh \<and> ls \<le> s \<and> s \<le> us \<and> lv \<le> v \<and> v \<le> uv)"
proof -
  have inside: "get_color_at_point img x y tbl = color_loop px tbl"
    using assms by (simp add: get_color_at_point_def)
  show ?thesis
    unfolding inside using color_loop_first [of pre px r name post] color_loop_none [of tbl px]
    by auto
qed

theorem first_matching_entry_wins_witness:
  "get_color_at_point sample_img 200 50 default_ranges = ''green''
   \<and> entry_matches (35, 200, 200) (RangePair (35, 50, 50) (85, 255, 255))
   \<and> entry_matches (35, 200, 200) (RangePair (20, 50, 50) (35, 255, 255))
   \<and> get_color_at_point sample_img 260 50 default_ranges = ''unknown''"
proof -
  have px: "(35, 200, 200) = pixel sample_img (nat 50) (nat 200)"
      "(0, 0, 255) = pixel sample_img (nat 50) (nat 260)"
    by (simp_all add: sample_img_def)
  have inside: "(0::int) \<le> 200" "(0::int) \<le> 260" "(0::int) \<le> 50"
      "200 < int (cols sample_img)" "260 < int (cols sample_img)" "50 < int (rows sample_img)"
    by (simp_all add: sample_img_def)
  note a = first_matching_entry_wins
      [OF inside(1) inside(3) inside(4) inside(6) px(1),
       of default_ranges
          "[(''red'', RangeList [((0, 50, 50), (10, 255, 255)), ((160, 50, 50), (180, 255, 255))])]"
          "''green''" "RangePair (35, 50, 50) (85, 255, 255)"
          "[(''blue'', RangePair (100, 50, 50) (130, 255, 255)),
            (''yellow'', RangePair (20, 50, 50) (35, 255, 255))]"]
  note b = first_matching_entry_wins [OF inside(2) inside(3) inside(5) inside(6) px(2),
       of default_ranges]
  have "get_color_at_point sample_img 200 50 default_ranges = ''green''"
    using a by (simp add: default_ranges_def)
  moreover have "get_color_at_point sample_img 260 50 default_ranges = ''unknown''"
    using b by (simp add: default_ranges_def)
  ultimately show ?thesis
    by simp
qed

text \<open>
  C6. For a sample point outside the image (\<open>x < 0\<close>, \<open>y < 0\<close>, \<open>x\<close> at least the
  width or \<open>y\<close> at least the height) the colour classifier returns \<open>unknown\<close>, for
  every image and every table; it reads no pixel and has no failing branch.
\<close>

theorem out_of_bounds_unknown:
  assumes "x < 0 \<or> y < 0 \<or> int (cols img) \<le> x \<or> int (rows img) \<le> y"
  shows "get_color_at_point img x y tbl = ''unknown''"
  using assms by (auto simp: get_color_at_point_def)

theorem out_of_bounds_unknown_witness:
  "get_color_at_point sample_img (- 1) 0 default_ranges = ''unknown''
   \<and> get_color_at_point sample_img (int (cols sample_img)) 0 default_ranges = ''unknown''"
proof -
  have "(- 1::int) < 0 \<or> (0::int) < 0 \<or> int (cols sample_img) \<le> - 1 \<or> int (rows sample_img) \<le> 0"
    by simp
  from out_of_bounds_unknown [OF this, of default_ranges]
  have a: "get_color_at_point sample_img (- 1) 0 default_ranges = ''unknown''" .
  have "int (cols sample_img) < 0 \<or> (0::int) < 0 \<or> int (cols sample_img) \<le> int (cols sample_img)
          \<or> int (rows sample_img) \<le> 0"
    by simp
  from out_of_bounds_unknown [OF this, of default_ranges]
  have b: "get_color_at_point sample_img (int (cols sample_img)) 0 default_ranges = ''unknown''" .
  from a b show ?thesis
    by (rule conjI)
qed

section \<open>The object labeler\<close>

lemma label_loop_map_filter:
  "label_loop cv img tbl ps results =
     results @ List.map_filter
       (\<lambda>(contour, shape_label).
          if contourArea cv contour < 100 \<or> m00 (cv_moments cv contour) = 0 then None
          else Some (contour, shape_label,
                 (let cx = py_int (m10 (cv_moments cv contour) / m00 (cv_moments cv contour));
                      cy = py_int (m01 (cv_moments cv contour) / m00 (cv_moments cv contour))
                  in if cx < 0 \<or> cy < 0 \<or> int (cols img) \<le> cx \<or> int (rows img) \<le> cy
                     then ''unknown''
                     else get_color_at_point img cx cy tbl))) ps"
proof (induction ps arbitrary: results)
  case Nil
  show ?case by (simp add: List.map_filter_simps)
next
  case (Cons p ps)
  obtain contour shape_label where p: "p = (contour, shape_label)"
    by (cases p)
  show ?case
    unfolding p by (simp add: Cons.IH List.map_filter_simps Let_def)
qed

lemma length_map_filter_le: "length (List.map_filter f xs) \<le> length xs"
  by (induction xs) (simp_all add: List.map_filter_simps split: option.splits)

lemma sample_labels:
  "detect_shapes_and_colors sample_cv (Some sample_img) [0, 6, 5, 1, 4, 2]
     [''rectangle'', ''other'', ''rectangle'', ''circle'', ''other'', ''other''] None =
   Inr [(0, ''rectangle'', ''red''), (5, ''rectangle'', ''red''), (1, ''circle'', ''green''),
        (4, ''other'', ''unknown'')]"
  by (simp add: detect_shapes_and_colors_def sample_cv_def sample_img_def py_int_def
        get_color_at_point_def default_ranges_def)

text \<open>
  C7, as amended. For every pair of the zipped inputs, in input order: no record is
  produced when the area of the contour is below 100 or its \<open>m00\<close> is 0; otherwise the
  record is (contour, label, colour), where the centroid is taken at integer pixel
  coordinates \<open>cx = int (m10 / m00)\<close>, \<open>cy = int (m01 / m00)\<close>, the quotients truncated
  toward zero, and the colour is \<open>unknown\<close> when \<open>(cx, cy)\<close> is outside the image and
  the colour classifier's answer at \<open>(cx, cy)\<close> otherwise.
\<close>

theorem labeler_records:
  assumes "tbl = (case t of None \<Rightarrow> default_ranges | Some v \<Rightarrow> v)"
  shows "detect_shapes_and_colors cv (Some img) contours_list shape_labels t =
     Inr (List.map_filter
       (\<lambda>(contour, shape_label).
          if contourArea cv contour < 100 \<or> m00 (cv_moments cv contour) = 0 then None
          else Some (contour, shape_label,
                 (let cx = py_int (m10 (cv_moments cv contour) / m00 (cv_moments cv contour));
                      cy = py_int (m01 (cv_moments cv contour) / m00 (cv_moments cv contour))
                  in if cx < 0 \<or> cy < 0 \<or> int (cols img) \<le> cx \<or> int (rows img) \<le> cy
                     then ''unknown''
                     else get_color_at_point img cx cy tbl)))
       (zip contours_list shape_labels))
     \<and> \<bar>real_of_int (py_int r)\<bar> \<le> \<bar>r\<bar> \<and> \<bar>r - real_of_int (py_int r)\<bar> < 1"
proof -
  have "detect_shapes_and_colors cv (Some img) contours_list shape_labels t =
          Inr (label_loop cv img tbl (zip contours_list shape_labels) [])"
    by (simp add: detect_shapes_and_colors_def assms)
  then show ?thesis
    using py_int_truncates [of r]
    by (simp only: label_loop_map_filter append_Nil)
qed

theorem labeler_records_witness:
  "detect_shapes_and_colors sample_cv (Some sample_img) [0, 6, 5, 1, 4, 2]
     [''rectangle'', ''other'', ''rectangle'', ''circle'', ''other'', ''other''] None =
   Inr [(0, ''rectangle'', ''red''), (5, ''rectangle'', ''red''), (1, ''circle'', ''green''),
        (4, ''other'', ''unknown'')]
   \<and> py_int (- 1 / 2) = 0"
proof -
  have tbl: "default_ranges = (case None of None \<Rightarrow> default_ranges | Some v \<Rightarrow> v)"
    by simp
  note a = labeler_records [OF tbl, of sample_cv sample_img "[0, 6, 5, 1, 4, 2]"
      "[''rectangle'', ''other'', ''rectangle'', ''circle'', ''other'', ''other'']" "- 1 / 2"]
  have "\<bar>real_of_int (py_int (- 1 / 2))\<bar> \<le> \<bar>- 1 / 2\<bar>"
    using a by blast
  then have "py_int (- 1 / 2) = 0"
    by linarith
  then show ?thesis
    using sample_labels by blast
qed

text \<open>
  C7, as written, takes the centroid to be \<open>(m10 / m00, m01 / m00)\<close>. Contour 5
  of the fixture has its centroid at \<open>(- 1/2, 5)\<close>, left of the image, and an area of
  210; the labeler samples the pixel at \<open>(0, 5)\<close> and answers \<open>red\<close>, not \<open>unknown\<close>.
\<close>

theorem centroid_truncation_counterexample:
  "m10 (cv_moments sample_cv 5) / m00 (cv_moments sample_cv 5) < 0
   \<and> \<not> contourArea sample_cv 5 < 100
   \<and> m00 (cv_moments sample_cv 5) \<noteq> 0
   \<and> detect_shapes_and_colors sample_cv (Some sample_img) [5] [''rectangle''] None =
       Inr [(5, ''rectangle'', ''red'')]"
  by (simp add: detect_shapes_and_colors_def sample_cv_def sample_img_def py_int_def
        get_color_at_point_def default_ranges_def)

lemma zip_as_indices:
  "zip xs ys = map (\<lambda>i. (xs ! i, ys ! i)) [0..<min (length xs) (length ys)]"
  by (rule nth_equalityI) simp_all

text \<open>
  C10. With lists of unequal lengths the labeler does not raise: no branch looks at
  the lengths, and a run fails exactly when the image cannot be loaded, whatever the
  lengths.
  With \<open>n\<close> the shorter length, it goes through the pairs at the indices 0 to \<open>n - 1\<close>,
  each of them and in this order, producing for each the record (or none) it produces
  for lists of equal length; the result is the one for the two lists cut to length
  \<open>n\<close>, and the elements of the longer list from index \<open>n\<close> on are never looked at.
\<close>

theorem unequal_lengths_truncated:
  assumes "n = min (length contours_list) (length shape_labels)"
      and "tbl = (case t of None \<Rightarrow> default_ranges | Some v \<Rightarrow> v)"
  shows "detect_shapes_and_colors cv (Some img) contours_list shape_labels t =
     Inr (List.map_filter
       (\<lambda>(contour, shape_label).
          if contourArea cv contour < 100 \<or> m00 (cv_moments cv contour) = 0 then None
          else Some (contour, shape_label,
                 (let cx = py_int (m10 (cv_moments cv contour) / m00 (cv_moments cv contour));
                      cy = py_int (m01 (cv_moments cv contour) / m00 (cv_moments cv contour))
                  in if cx < 0 \<or> cy < 0 \<or> int (cols img) \<le> cx \<or> int (rows img) \<le> cy
                     then ''unknown''
                     else get_color_at_point img cx cy tbl)))
       (map (\<lambda>i. (contours_list ! i, shape_labels ! i)) [0..<n]))
     \<and> detect_shapes_and_colors cv (Some img) contours_list shape_labels t =
           detect_shapes_and_colors cv (Some img) (take n contours_list) (take n shape_labels) t
     \<and> (\<exists>results. detect_shapes_and_colors cv (Some img) contours_list shape_labels t =
             Inr results \<and> length results \<le> n)
     \<and> (detect_shapes_and_colors cv loaded contours_list shape_labels t = Inl e \<longleftrightarrow>
           loaded = None \<and> e = FileNotFoundError)"
proof -
  have "zip (take n contours_list) (take n shape_labels) = take n (zip contours_list shape_labels)"
    by (simp add: take_zip)
  also have "\<dots> = zip contours_list shape_labels"
    by (simp add: assms(1))
  finally have z: "zip (take n contours_list) (take n shape_labels) =
      zip contours_list shape_labels" .
  have idx: "zip contours_list shape_labels =
      map (\<lambda>i. (contours_list ! i, shape_labels ! i)) [0..<n]"
    unfolding assms(1) by (rule zip_as_indices)
  have run: "detect_shapes_and_colors cv (Some img) contours_list shape_labels t =
          Inr (label_loop cv img tbl (zip contours_list shape_labels) [])"
    by (simp add: detect_shapes_and_colors_def assms(2))
  have cut: "detect_shapes_and_colors cv (Some img) (take n contours_list) (take n shape_labels) t =
          Inr (label_loop cv img tbl (zip contours_list shape_labels) [])"
    by (simp add: detect_shapes_and_colors_def assms(2) z)
  have len: "length (List.map_filter f (map (\<lambda>i. (contours_list ! i, shape_labels ! i)) [0..<n]))
      \<le> n" for f :: "'a \<times> 'b \<Rightarrow> ('a \<times> 'b \<times> string) option"
    using length_map_filter_le [of f "map (\<lambda>i. (contours_list ! i, shape_labels ! i)) [0..<n]"]
    by simp
  have none: "detect_shapes_and_colors cv loaded contours_list shape_labels t = Inl e \<longleftrightarrow>
           loaded = None \<and> e = FileNotFoundError"
    by (cases loaded) (auto simp: detect_shapes_and_colors_def)
  show ?thesis
    unfolding cut unfolding run label_loop_map_filter append_Nil idx
    using len none by blast
qed

theorem unequal_lengths_truncated_witness:
  "detect_shapes_and_colors sample_cv (Some sample_img) [0, 1, 5] [''rectangle'', ''circle''] None =
     Inr [(0, ''rectangle'', ''red''), (1, ''circle'', ''green'')]
   \<and> detect_shapes_and_colors sample_cv (Some sample_img) [0, 1, 5] [''rectangle'', ''circle''] None =
       detect_shapes_and_colors sample_cv (Some sample_img) [0, 1] [''rectangle'', ''circle''] None
   \<and> detect_shapes_and_colors sample_cv (Some sample_img) [5] [''rectangle''] None =
       Inr [(5, ''rectangle'', ''red'')]
   \<and> detect_shapes_and_colors sample_cv None [0, 1, 5] [''rectangle'', ''circle''] None =
       Inl FileNotFoundError"
proof -
  have n: "2 = min (length [0, 1, 5::int]) (length [''rectangle'', ''circle''])"
    by simp
  have tbl: "default_ranges = (case None of None \<Rightarrow> default_ranges | Some v \<Rightarrow> v)"
    by simp
  note a = unequal_lengths_truncated [OF n tbl, of sample_cv sample_img None FileNotFoundError]
  have "detect_shapes_and_colors sample_cv (Some sample_img) [0, 1, 5] [''rectangle'', ''circle''] None =
        detect_shapes_and_colors sample_cv (Some sample_img) (take 2 [0, 1, 5])
          (take 2 [''rectangle'', ''circle'']) None"
    using a by blast
  then have cut: "detect_shapes_and_colors sample_cv (Some sample_img) [0, 1, 5]
        [''rectangle'', ''circle''] None =
      detect_shapes_and_colors sample_cv (Some sample_img) [0, 1] [''rectangle'', ''circle''] None"
    by simp
  have two: "detect_shapes_and_colors sample_cv (Some sample_img) [0, 1] [''rectangle'', ''circle'']
        None = Inr [(0, ''rectangle'', ''red''), (1, ''circle'', ''green'')]"
    by (simp add: detect_shapes_and_colors_def sample_cv_def sample_img_def py_int_def
          get_color_at_point_def default_ranges_def)
  have third: "detect_shapes_and_colors sample_cv (Some sample_img) [5] [''rectangle''] None =
       Inr [(5, ''rectangle'', ''red'')]"
    by (simp add: detect_shapes_and_colors_def sample_cv_def sample_img_def py_int_def
          get_color_at_point_def default_ranges_def)
  have none: "detect_shapes_and_colors sample_cv None [0, 1, 5] [''rectangle'', ''circle''] None =
       Inl FileNotFoundError"
    using a by blast
  from cut two third none show ?thesis
    by simp
qed

end
